theory Spec2Isabelle
  imports Main "HOL-Library.Word"
begin

unbundle bit_operations_syntax

section \<open>Machine types\<close>

text \<open>
  \<open>uint8_t\<close>, \<open>uint16_t\<close> and \<open>uint32_t\<close> are words of the same width.  An
  \<open>int8_t\<close> is its 8-bit pattern, read as a number with \<open>sint\<close>;
  \<open>static_cast<uint8_t>\<close> of it is \<open>ucast\<close>, which keeps the bit pattern.
\<close>

type_synonym u8 = "8 word"
type_synonym i8 = "8 word"
type_synonym u16 = "16 word"
type_synonym u32 = "32 word"

section \<open>Frame codec\<close>

definition FRAME_HEAD_1 :: u8 where
  "FRAME_HEAD_1 = 0x57"

definition FRAME_HEAD_2 :: u8 where
  "FRAME_HEAD_2 = 0xAB"

definition DEVICE_ADDR :: u8 where
  "DEVICE_ADDR = 0x00"

text \<open>
  \<open>std::accumulate(first, last, 0)\<close>: the initial value \<open>0\<close> is an \<open>int\<close>, so every
  byte is promoted and added in \<open>int\<close>; the callers then narrow the result to
  \<open>uint8_t\<close>.  The accumulator is an unbounded integer here: a C++ \<open>int\<close> cannot
  overflow on fewer than \<open>2^23\<close> bytes, and the narrowing keeps the sum modulo 256 only.
\<close>

definition accumulate :: "u8 list \<Rightarrow> int \<Rightarrow> int" where
  "accumulate bytes init = fold (\<lambda>b acc. acc + uint b) bytes init"

definition make_frame :: "u8 \<Rightarrow> u8 \<Rightarrow> u8 list \<Rightarrow> u8 list" where
  "make_frame addr cmd data =
     (let frame = [FRAME_HEAD_1, FRAME_HEAD_2, addr, cmd, of_nat (length data)] @ data;
          sum = (word_of_int (accumulate frame 0) :: u8)
      in frame @ [sum])"

text \<open>
  \<open>validate_response\<close> returns \<open>std::nullopt\<close> from each of its six checks and the
  payload slice \<open>[begin + 5, end - 1)\<close> otherwise.  The reads \<open>resp[0..4]\<close> and
  \<open>resp.back()\<close> happen only after the size check, so they are in range.
\<close>

definition validate_response :: "u8 list \<Rightarrow> u8 \<Rightarrow> u8 list option" where
  "validate_response resp expected_cmd =
     (if length resp < 6 then None
      else if resp ! 0 \<noteq> FRAME_HEAD_1 \<or> resp ! 1 \<noteq> FRAME_HEAD_2 then None
      else if resp ! 2 \<noteq> DEVICE_ADDR then None
      else let rcv_cmd = resp ! 3 in
        if (rcv_cmd AND 0x3F) \<noteq> expected_cmd then None
        else let len = resp ! 4 in
          if length resp \<noteq> 6 + unat len then None
          else let sum = (word_of_int (accumulate (butlast resp) 0) :: u8) in
            if last resp \<noteq> sum then None
            else Some (butlast (drop 5 resp)))"

section \<open>Serial transport\<close>

text \<open>
  The Boost.Asio serial port is not part of the repository.  The model keeps what the
  controller can observe of it: the buffers handed to \<open>asio::write\<close> so far, and a
  script of what the environment does next, namely whether each coming \<open>asio::write\<close>
  sets the error code and what each coming \<open>read_some\<close> delivers.  A script that has
  run out lets a write succeed and a read report an error.  Every theorem below
  holds for all ports, hence for every behaviour of the environment.  The 10 ms sleep
  between write and read has no effect on values and is left out.
\<close>

datatype read_event = ReadError | ReadBytes "u8 list"

record serial_port =
  write_calls :: "u8 list list"
  write_errors :: "bool list"
  read_events :: "read_event list"

definition asio_write :: "u8 list \<Rightarrow> serial_port \<Rightarrow> bool \<times> serial_port" where
  "asio_write buf p =
     (case write_errors p of
        [] \<Rightarrow> (False, p\<lparr>write_calls := write_calls p @ [buf]\<rparr>)
      | ec # rest \<Rightarrow> (ec, p\<lparr>write_calls := write_calls p @ [buf], write_errors := rest\<rparr>))"

definition read_some :: "nat \<Rightarrow> serial_port \<Rightarrow> (bool \<times> u8 list) \<times> serial_port" where
  "read_some capacity p =
     (case read_events p of
        [] \<Rightarrow> ((True, []), p)
      | ReadError # rest \<Rightarrow> ((True, []), p\<lparr>read_events := rest\<rparr>)
      | ReadBytes bytes # rest \<Rightarrow> ((False, take capacity bytes), p\<lparr>read_events := rest\<rparr>))"

section \<open>Command dispatcher\<close>

text \<open>
  \<open>read_response\<close> reads once into a buffer of 128 bytes and shrinks the buffer to the
  \<open>len\<close> bytes received.
\<close>

definition read_response :: "serial_port \<Rightarrow> u8 list option \<times> serial_port" where
  "read_response p =
     (case read_some 128 p of
        ((ec, received), p') \<Rightarrow>
          let len = length received in
          if ec \<or> len < 6 then (None, p') else (Some (take len received), p'))"

definition send_command :: "u8 \<Rightarrow> u8 list \<Rightarrow> serial_port \<Rightarrow> u8 list option \<times> serial_port" where
  "send_command cmd data p =
     (let frame = make_frame DEVICE_ADDR cmd data in
      case asio_write frame p of
        (ec, p1) \<Rightarrow>
          if ec then (None, p1)
          else (case read_response p1 of
                  (None, p2) \<Rightarrow> (None, p2)
                | (Some resp, p2) \<Rightarrow>
                    (case validate_response resp cmd of
                       None \<Rightarrow> (None, p2)
                     | Some payload \<Rightarrow>
                         if payload = [] then (None, p2) else (Some payload, p2))))"

section \<open>Enumerations and structures of the header\<close>

text \<open>
  The four enumerations are \<open>enum class X : uint8_t\<close>: every \<open>uint8_t\<close> is a value
  of such a type (the header describes the control keys as a bitwise combination), and
  \<open>static_cast<uint8_t>\<close> gives the byte back.  Each is a wrapper around the byte, with
  the named enumerators as constants.
\<close>

datatype KeyboardCtrlKey = KeyboardCtrlKey u8
datatype MouseButton = MouseButton u8
datatype UsbStringType = UsbStringType u8
datatype CommandStatus = CommandStatus u8

definition MouseButton_None :: MouseButton where "MouseButton_None = MouseButton 0x00"
definition MouseButton_Left :: MouseButton where "MouseButton_Left = MouseButton 0x01"
definition MouseButton_Right :: MouseButton where "MouseButton_Right = MouseButton 0x02"
definition MouseButton_Middle :: MouseButton where "MouseButton_Middle = MouseButton 0x04"

definition Success :: CommandStatus where "Success = CommandStatus 0x00"
definition Timeout :: CommandStatus where "Timeout = CommandStatus 0xE1"
definition HeadError :: CommandStatus where "HeadError = CommandStatus 0xE2"
definition CmdError :: CommandStatus where "CmdError = CommandStatus 0xE3"
definition ChecksumError :: CommandStatus where "ChecksumError = CommandStatus 0xE4"
definition ParameterError :: CommandStatus where "ParameterError = CommandStatus 0xE5"
definition OperationFailed :: CommandStatus where "OperationFailed = CommandStatus 0xE6"

fun pack_keyboard_ctrl_key :: "KeyboardCtrlKey \<Rightarrow> u8" where
  "pack_keyboard_ctrl_key (KeyboardCtrlKey k) = k"

fun pack_mouse_button :: "MouseButton \<Rightarrow> u8" where
  "pack_mouse_button (MouseButton b) = b"

fun usb_string_type_u8 :: "UsbStringType \<Rightarrow> u8" where
  "usb_string_type_u8 (UsbStringType t) = t"

fun command_status_u8 :: "CommandStatus \<Rightarrow> u8" where
  "command_status_u8 (CommandStatus c) = c"

record DeviceInfo =
  version_major :: u8
  version_minor :: u8
  usb_connected :: bool
  num_lock :: bool
  caps_lock :: bool
  scroll_lock :: bool
  pc_sleeping :: bool

text \<open>\<open>std::array<uint8_t, 6>\<close> and \<open>std::array<uint8_t, 50>\<close>: byte lists of that length.\<close>

typedef key_array = "{ks :: u8 list. length ks = 6}"
  by (rule exI [of _ "replicate 6 0"]) simp

typedef para_array = "{bs :: u8 list. length bs = 50}"
  by (rule exI [of _ "replicate 50 0"]) simp

record ParaConfig =
  raw_bytes :: para_array

section \<open>Command catalog\<close>

text \<open>
  In \<open>(version >> 4) & 0x0F - 2\<close> the subtraction binds tighter than \<open>&\<close>, so the mask
  is \<open>0x0F - 2\<close>.  The operands are promoted to \<open>int\<close> and the result is narrowed to
  \<open>uint8_t\<close>; all values stay below 256, so the same operations on bytes give the same
  result.
\<close>

definition get_info :: "serial_port \<Rightarrow> DeviceInfo option \<times> serial_port" where
  "get_info p =
     (case send_command 0x01 [] p of
        (None, p') \<Rightarrow> (None, p')
      | (Some response, p') \<Rightarrow>
          if length response < 8 then (None, p')
          else
            let version = response ! 0;
                led_status = response ! 2
            in (Some \<lparr>version_major = drop_bit 4 version AND (0x0F - 2),
                       version_minor = version AND 0x0F,
                       usb_connected = (response ! 1 = 0x01),
                       num_lock = (led_status AND 0x01 \<noteq> 0),
                       caps_lock = (led_status AND 0x02 \<noteq> 0),
                       scroll_lock = (led_status AND 0x04 \<noteq> 0),
                       pc_sleeping = (response ! 3 = 0x03)\<rparr>, p'))"

text \<open>
  Every operation below ends in
  \<open>r.has_value() && !r->empty() && r->at(0) == 0x00\<close>; \<open>at(0)\<close> is reached only for
  a non-empty vector.
\<close>

definition send_ms_rel_data ::
  "MouseButton \<Rightarrow> i8 \<Rightarrow> i8 \<Rightarrow> i8 \<Rightarrow> serial_port \<Rightarrow> bool \<times> serial_port" where
  "send_ms_rel_data button x_delta y_delta wheel p =
     (let data = [0x01, pack_mouse_button button, ucast x_delta, ucast y_delta, ucast wheel] in
      case send_command 0x05 data p of
        (r, p') \<Rightarrow>
          ((case r of None \<Rightarrow> False
            | Some v \<Rightarrow> v \<noteq> [] \<and> v ! 0 = command_status_u8 Success), p'))"

text \<open>
  \<open>std::ranges::copy(src, dst.begin() + off)\<close> for a source that fits into the
  destination from \<open>off\<close> on.
\<close>

definition copy_at :: "u8 list \<Rightarrow> nat \<Rightarrow> u8 list \<Rightarrow> u8 list" where
  "copy_at src off dst = take off dst @ src @ drop (off + length src) dst"

definition send_kb_general_data ::
  "KeyboardCtrlKey \<Rightarrow> key_array \<Rightarrow> serial_port \<Rightarrow> bool \<times> serial_port" where
  "send_kb_general_data ctrl keys p =
     (let data0 = replicate 8 (0 :: u8);
          data1 = data0[0 := pack_keyboard_ctrl_key ctrl];
          data2 = data1[1 := 0x00];
          data = copy_at (Rep_key_array keys) 2 data2
      in case send_command 0x02 data p of
        (r, p') \<Rightarrow>
          ((case r of None \<Rightarrow> False
            | Some v \<Rightarrow> v \<noteq> [] \<and> v ! 0 = command_status_u8 Success), p'))"

definition send_ms_abs_data ::
  "MouseButton \<Rightarrow> u16 \<Rightarrow> u16 \<Rightarrow> i8 \<Rightarrow> serial_port \<Rightarrow> bool \<times> serial_port" where
  "send_ms_abs_data button x y wheel p =
     (let data = [0x02,
                  pack_mouse_button button,
                  ucast (x AND 0xFF),
                  ucast (drop_bit 8 x AND 0xFF),
                  ucast (y AND 0xFF),
                  ucast (drop_bit 8 y AND 0xFF),
                  ucast wheel]
      in case send_command 0x04 data p of
        (r, p') \<Rightarrow>
          ((case r of None \<Rightarrow> False
            | Some v \<Rightarrow> v \<noteq> [] \<and> v ! 0 = command_status_u8 Success), p'))"

definition set_usb_string ::
  "UsbStringType \<Rightarrow> string \<Rightarrow> serial_port \<Rightarrow> bool \<times> serial_port" where
  "set_usb_string type str p =
     (let data = [usb_string_type_u8 type, of_nat (length str)] @ map of_char str in
      case send_command 0x0B data p of
        (r, p') \<Rightarrow>
          ((case r of None \<Rightarrow> False
            | Some v \<Rightarrow> v \<noteq> [] \<and> v ! 0 = command_status_u8 Success), p'))"

definition send_kb_media_data :: "u8 \<Rightarrow> u16 \<Rightarrow> serial_port \<Rightarrow> bool \<times> serial_port" where
  "send_kb_media_data report_id keycode p =
     (let data = [report_id, ucast (keycode AND 0xFF), ucast (drop_bit 8 keycode AND 0xFF)] in
      case send_command 0x03 data p of
        (r, p') \<Rightarrow> ((case r of None \<Rightarrow> False | Some v \<Rightarrow> v \<noteq> [] \<and> v ! 0 = 0x00), p'))"

definition send_hid_data :: "u8 list \<Rightarrow> serial_port \<Rightarrow> bool \<times> serial_port" where
  "send_hid_data data p =
     (if length data > 64 then (False, p)
      else case send_command 0x06 data p of
        (r, p') \<Rightarrow> ((case r of None \<Rightarrow> False | Some v \<Rightarrow> v \<noteq> [] \<and> v ! 0 = 0x00), p'))"

definition set_para_config :: "ParaConfig \<Rightarrow> serial_port \<Rightarrow> bool \<times> serial_port" where
  "set_para_config config p =
     (case send_command 0x09 (Rep_para_array (raw_bytes config)) p of
        (r, p') \<Rightarrow> ((case r of None \<Rightarrow> False | Some v \<Rightarrow> v \<noteq> [] \<and> v ! 0 = 0x00), p'))"

definition set_default_config :: "serial_port \<Rightarrow> bool \<times> serial_port" where
  "set_default_config p =
     (case send_command 0x0C [] p of
        (r, p') \<Rightarrow> ((case r of None \<Rightarrow> False | Some v \<Rightarrow> v \<noteq> [] \<and> v ! 0 = 0x00), p'))"

definition reset :: "serial_port \<Rightarrow> bool \<times> serial_port" where
  "reset p =
     (case send_command 0x0F [] p of
        (r, p') \<Rightarrow> ((case r of None \<Rightarrow> False | Some v \<Rightarrow> v \<noteq> [] \<and> v ! 0 = 0x00), p'))"

section \<open>Mouse helpers\<close>

definition mouse_down :: "MouseButton \<Rightarrow> serial_port \<Rightarrow> bool \<times> serial_port" where
  "mouse_down button p =
     (let data = [0x01, pack_mouse_button button, 0x00, 0x00, 0x00] in
      case send_command 0x05 data p of
        (r, p') \<Rightarrow>
          ((case r of None \<Rightarrow> False
            | Some v \<Rightarrow> v \<noteq> [] \<and> v ! 0 = command_status_u8 Success), p'))"

text \<open>The parameter \<open>button\<close> of \<open>mouse_up\<close> is not used by its body.\<close>

definition mouse_up :: "MouseButton \<Rightarrow> serial_port \<Rightarrow> bool \<times> serial_port" where
  "mouse_up button p =
     (let data = [0x01, 0x00, 0x00, 0x00, 0x00] in
      case send_command 0x05 data p of
        (r, p') \<Rightarrow>
          ((case r of None \<Rightarrow> False
            | Some v \<Rightarrow> v \<noteq> [] \<and> v ! 0 = command_status_u8 Success), p'))"

definition move_to_absolute :: "u16 \<Rightarrow> u16 \<Rightarrow> serial_port \<Rightarrow> bool \<times> serial_port" where
  "move_to_absolute x0 y0 p =
     (let x = min x0 4095;
          y = min y0 4095;
          data = [0x02,
                  0x00,
                  ucast (x AND 0xFF),
                  ucast (drop_bit 8 x AND 0xFF),
                  ucast (y AND 0xFF),
                  ucast (drop_bit 8 y AND 0xFF),
                  0x00]
      in case send_command 0x04 data p of
        (r, p') \<Rightarrow>
          ((case r of None \<Rightarrow> False
            | Some v \<Rightarrow> v \<noteq> [] \<and> v ! 0 = command_status_u8 Success), p'))"

section \<open>Coordinate mapper\<close>

text \<open>
  The products and quotients are computed in \<open>uint32_t\<close>, the quotient is narrowed to
  \<open>uint16_t\<close>, and only then compared with 4095.  A width or height of zero divides by
  zero, which the function does not survive: the model returns \<open>None\<close> there.
\<close>

definition convert_screen_to_absolute ::
  "u16 \<Rightarrow> u16 \<Rightarrow> u16 \<Rightarrow> u16 \<Rightarrow> (u16 \<times> u16) option" where
  "convert_screen_to_absolute screen_x screen_y screen_width screen_height =
     (if screen_width = 0 \<or> screen_height = 0 then None
      else
        let abs_x = (ucast (((ucast screen_x :: u32) * 4095) div ucast screen_width) :: u16);
            abs_y = (ucast (((ucast screen_y :: u32) * 4095) div ucast screen_height) :: u16)
        in Some (min abs_x 4095, min abs_y 4095))"

section \<open>Properties of the frame codec\<close>

lemma accumulate_sum_list:
  "accumulate bytes init = init + sum_list (map uint bytes)"
  unfolding accumulate_def
  by (induction bytes arbitrary: init) simp_all

lemma word_of_accumulate:
  "(word_of_int (accumulate bytes init) :: u8) = word_of_int init + sum_list bytes"
  unfolding accumulate_sum_list
  by (induction bytes) simp_all

lemma accumulate_nat:
  "accumulate bytes 0 = int (sum_list (map unat bytes))"
  unfolding accumulate_sum_list
  by (induction bytes) simp_all

lemma unat_word_of_accumulate:
  "unat (word_of_int (accumulate bytes 0) :: u8) = sum_list (map unat bytes) mod 256"
  by (simp add: accumulate_nat unat_of_nat)

lemma make_frame_Cons:
  "make_frame addr cmd data =
     0x57 # 0xAB # addr # cmd # of_nat (length data) #
       (data @ [0x57 + 0xAB + addr + cmd + of_nat (length data) + sum_list data])"
  by (simp add: make_frame_def Let_def word_of_accumulate FRAME_HEAD_1_def FRAME_HEAD_2_def
      add.assoc)

lemma validate_response_unfolded:
  assumes "body \<noteq> []"
  shows "validate_response (h1 # h2 # a # c # l # body) e =
     (if h1 \<noteq> 0x57 \<or> h2 \<noteq> 0xAB then None
      else if a \<noteq> 0 then None
      else if c AND 0x3F \<noteq> e then None
      else if length body \<noteq> 1 + unat l then None
      else if last body \<noteq> h1 + h2 + a + c + l + sum_list (butlast body) then None
      else Some (butlast body))"
proof -
  obtain b bs where body: "body = b # bs"
    using assms by (cases body) auto
  show ?thesis
    unfolding body
    by (simp add: validate_response_def Let_def word_of_accumulate
        FRAME_HEAD_1_def FRAME_HEAD_2_def DEVICE_ADDR_def add.assoc)
qed

lemma unat_of_nat_u8: "n < 256 \<Longrightarrow> unat (of_nat n :: u8) = n"
  by (simp add: unat_of_nat)

lemma sum_list_update_u8:
  fixes xs :: "u8 list"
  shows "j < length xs \<Longrightarrow> sum_list (xs[j := v]) = sum_list xs - xs ! j + v"
  by (induction xs arbitrary: j) (auto split: nat.splits)

lemma validate_make_frame:
  assumes "length data < 256" and "cmd AND 0x3F = cmd"
  shows "validate_response (make_frame DEVICE_ADDR cmd data) cmd = Some data"
  using assms
  by (simp add: make_frame_Cons validate_response_unfolded unat_of_nat_u8 DEVICE_ADDR_def)

text \<open>
  C1 (round trip).  For a payload of 0 to 249 bytes, the device address \<open>0x00\<close> and a
  command byte that equals its own low six bits, validating the frame that
  \<open>make_frame\<close> builds against that command succeeds and returns the payload unchanged.
\<close>

theorem make_frame_validate_roundtrip:
  assumes "length data \<le> 249" and "addr = DEVICE_ADDR" and "cmd AND 0x3F = cmd"
  shows "validate_response (make_frame addr cmd data) cmd = Some data"
  using assms by (simp add: validate_make_frame)

theorem make_frame_validate_roundtrip_witness:
  "length [0xAA, 0xBB :: u8] \<le> 249 \<and> (0x00 :: u8) = DEVICE_ADDR \<and> (0x01 :: u8) AND 0x3F = 0x01
   \<and> validate_response (make_frame 0x00 0x01 [0xAA, 0xBB]) 0x01 = Some [0xAA, 0xBB]"
  using make_frame_validate_roundtrip [of "[0xAA, 0xBB]" "0x00" "0x01"]
  by (simp add: DEVICE_ADDR_def)

text \<open>
  C2, as the spec states it, fails on its example: the five header bytes of the frame for
  address \<open>0x00\<close>, command \<open>0x01\<close> and an empty payload add up to \<open>0x103\<close>, so the
  checksum byte is \<open>0x03\<close> and not \<open>0x58\<close>.  Besides, the fifth byte is the payload
  length narrowed to 8 bits: for a payload of 256 bytes it is \<open>0x00\<close>.
\<close>

theorem make_frame_example_not_0x58:
  "make_frame 0x00 0x01 [] \<noteq> [0x57, 0xAB, 0x00, 0x01, 0x00, 0x58]
   \<and> make_frame 0x00 0x01 (replicate 256 0xFF) ! 4 = 0x00"
  by (simp add: make_frame_Cons)

text \<open>
  C2 (amended).  For every address, command and payload, \<open>make_frame\<close> emits the bytes
  \<open>0x57, 0xAB, address, command, payload length\<close> (the length narrowed to one byte, as
  \<open>static_cast<uint8_t>(data.size())\<close> does), then the payload, then one checksum byte
  equal to the sum modulo 256 of all the bytes before it; for address \<open>0x00\<close>, command
  \<open>0x01\<close> and an empty payload the frame is \<open>0x57, 0xAB, 0x00, 0x01, 0x00, 0x03\<close>.
\<close>

theorem make_frame_layout:
  "make_frame addr cmd data =
     [0x57, 0xAB, addr, cmd, of_nat (length data)] @ data @ [last (make_frame addr cmd data)]
   \<and> unat (last (make_frame addr cmd data)) =
       sum_list (map unat (butlast (make_frame addr cmd data))) mod 256
   \<and> make_frame 0x00 0x01 [] = [0x57, 0xAB, 0x00, 0x01, 0x00, 0x03]"
proof -
  have "make_frame addr cmd data =
     [0x57, 0xAB, addr, cmd, of_nat (length data)] @ data @ [last (make_frame addr cmd data)]"
    by (simp add: make_frame_Cons)
  moreover have "unat (last (make_frame addr cmd data)) =
       sum_list (map unat (butlast (make_frame addr cmd data))) mod 256"
    by (simp add: make_frame_def Let_def unat_word_of_accumulate)
  moreover have "make_frame 0x00 0x01 [] = [0x57, 0xAB, 0x00, 0x01, 0x00, 0x03]"
    by (simp add: make_frame_Cons)
  ultimately show ?thesis by blast
qed

text \<open>
  C3, as the spec states it, fails: \<open>validate_response\<close> returns a
  \<open>std::optional\<close>, and each of its checks returns the same \<open>std::nullopt\<close>.  A frame
  with a damaged header byte, one with a damaged address byte, one with a damaged command
  byte, one with a damaged length byte and one with a damaged payload byte all give the
  one result \<open>None\<close>; no error kind tells them apart.
\<close>

theorem validate_response_failures_undifferentiated:
  "validate_response ((make_frame 0x00 0x01 [0xAA])[0 := 0x58]) 0x01 = None
   \<and> validate_response ((make_frame 0x00 0x01 [0xAA])[2 := 0x01]) 0x01
       = validate_response ((make_frame 0x00 0x01 [0xAA])[0 := 0x58]) 0x01
   \<and> validate_response ((make_frame 0x00 0x01 [0xAA])[3 := 0x02]) 0x01
       = validate_response ((make_frame 0x00 0x01 [0xAA])[0 := 0x58]) 0x01
   \<and> validate_response ((make_frame 0x00 0x01 [0xAA])[4 := 0x02]) 0x01
       = validate_response ((make_frame 0x00 0x01 [0xAA])[0 := 0x58]) 0x01
   \<and> validate_response ((make_frame 0x00 0x01 [0xAA])[5 := 0xAB]) 0x01
       = validate_response ((make_frame 0x00 0x01 [0xAA])[0 := 0x58]) 0x01"
  by (simp add: make_frame_Cons validate_response_unfolded numeral_eq_Suc)

text \<open>
  C3 (amended).  Take a frame built by \<open>make_frame\<close> for the device address, a command
  that equals its own low six bits and a payload of at most 255 bytes.  Replacing any
  single byte of it by a different value, the checksum byte left as it was (or the
  checksum byte itself replaced), makes \<open>validate_response\<close> fail: it returns
  \<open>std::nullopt\<close>, the one failure value it has.
\<close>

theorem single_byte_mutation_rejected:
  assumes len: "length data < 256" and cmd: "cmd AND 0x3F = cmd"
    and i: "i < length (make_frame DEVICE_ADDR cmd data)"
    and v: "v \<noteq> make_frame DEVICE_ADDR cmd data ! i"
  shows "validate_response ((make_frame DEVICE_ADDR cmd data)[i := v]) cmd = None"
proof -
  define n where "n = length data"
  define s where "s = 0x57 + 0xAB + (0::u8) + cmd + of_nat n + sum_list data"
  have f: "make_frame DEVICE_ADDR cmd data = 0x57 # 0xAB # 0 # cmd # of_nat n # (data @ [s])"
    by (simp add: make_frame_Cons DEVICE_ADDR_def n_def s_def)
  have un: "unat (of_nat n :: u8) = n"
    using len by (simp add: n_def unat_of_nat_u8)
  have il: "i < 6 + n"
    using i unfolding f by (simp add: n_def)
  have "i = 0 \<or> i = 1 \<or> i = 2 \<or> i = 3 \<or> i = 4 \<or> (i = 5 + (i - 5) \<and> i - 5 < n) \<or> i = 5 + n"
    using il by arith
  then consider (head1) "i = 0" | (head2) "i = 1" | (addr) "i = 2" | (command) "i = 3"
    | (declared) "i = 4" | (payload) j where "i = 5 + j" "j < n" | (checksum) "i = 5 + n"
    by blast
  then show ?thesis
  proof cases
    case head1
    with v show ?thesis unfolding f by (simp add: validate_response_unfolded)
  next
    case head2
    with v show ?thesis unfolding f by (simp add: validate_response_unfolded)
  next
    case addr
    with v show ?thesis unfolding f by (simp add: validate_response_unfolded)
  next
    case command
    have upd: "(0x57 # 0xAB # 0 # cmd # of_nat n # (data @ [s]))[i := v] =
        0x57 # 0xAB # 0 # v # of_nat n # (data @ [s])"
      using command by (simp add: numeral_3_eq_3)
    have "v \<noteq> cmd"
      using v command unfolding f by (simp add: numeral_3_eq_3)
    then show ?thesis unfolding f upd
      by (simp add: validate_response_unfolded s_def)
  next
    case declared
    have upd: "(0x57 # 0xAB # 0 # cmd # of_nat n # (data @ [s]))[i := v] =
        0x57 # 0xAB # 0 # cmd # v # (data @ [s])"
      using declared by (simp add: numeral_Bit0 numeral_eq_Suc)
    have "v \<noteq> of_nat n"
      using v declared unfolding f by (simp add: numeral_Bit0 numeral_eq_Suc)
    then have "unat v \<noteq> n"
      using un by auto
    then show ?thesis unfolding f upd
      by (simp add: validate_response_unfolded n_def)
  next
    case (payload j)
    have upd: "(0x57 # 0xAB # 0 # cmd # of_nat n # (data @ [s]))[i := v] =
        0x57 # 0xAB # 0 # cmd # of_nat n # (data[j := v] @ [s])"
      using payload by (simp add: numeral_eq_Suc list_update_append n_def)
    have "v \<noteq> data ! j"
      using v payload unfolding f by (simp add: numeral_eq_Suc nth_append n_def)
    then have "sum_list (data[j := v]) \<noteq> sum_list data"
      using payload by (simp add: sum_list_update_u8 n_def)
    then show ?thesis unfolding f upd
      by (simp add: validate_response_unfolded s_def)
  next
    case checksum
    have upd: "(0x57 # 0xAB # 0 # cmd # of_nat n # (data @ [s]))[i := v] =
        0x57 # 0xAB # 0 # cmd # of_nat n # (data @ [v])"
      using checksum by (simp add: numeral_eq_Suc list_update_append n_def)
    have "v \<noteq> s"
      using v checksum unfolding f by (simp add: numeral_eq_Suc nth_append n_def)
    then show ?thesis unfolding f upd
      by (simp add: validate_response_unfolded s_def)
  qed
qed

theorem single_byte_mutation_rejected_witness:
  "length [0xAA :: u8] < 256 \<and> (0x01 :: u8) AND 0x3F = 0x01
   \<and> 5 < length (make_frame DEVICE_ADDR 0x01 [0xAA])
   \<and> (0xAB :: u8) \<noteq> make_frame DEVICE_ADDR 0x01 [0xAA] ! 5
   \<and> validate_response ((make_frame DEVICE_ADDR 0x01 [0xAA])[5 := 0xAB]) 0x01 = None"
  using single_byte_mutation_rejected [of "[0xAA]" "0x01" 5 "0xAB"]
  by (simp add: make_frame_Cons DEVICE_ADDR_def numeral_eq_Suc)

section \<open>Properties of the command dispatcher\<close>

lemma send_command_writes:
  "write_calls (snd (send_command cmd data p)) =
     write_calls p @ [make_frame DEVICE_ADDR cmd data]"
  by (auto simp add: send_command_def Let_def asio_write_def read_response_def read_some_def
      split: prod.splits option.splits list.splits read_event.splits if_splits)

lemma send_command_Some_iff:
  "fst (send_command cmd data p) = Some payload \<longleftrightarrow>
     (\<exists>p1 resp p2. asio_write (make_frame DEVICE_ADDR cmd data) p = (False, p1)
        \<and> read_response p1 = (Some resp, p2)
        \<and> validate_response resp cmd = Some payload \<and> payload \<noteq> [])"
  by (auto simp add: send_command_def Let_def split: prod.splits option.splits if_splits)

lemma status_check_iff:
  "(case r of None \<Rightarrow> False | Some v \<Rightarrow> v \<noteq> [] \<and> v ! 0 = c) = (\<exists>rest. r = Some (c # rest))"
  by (cases r) (auto simp: neq_Nil_conv)

text \<open>
  C8.  \<open>send_command\<close> never hands an empty payload to its caller; and when the write
  succeeds, the read delivers a response, and that response passes
  \<open>validate_response\<close> with an empty payload, \<open>send_command\<close> returns
  \<open>std::nullopt\<close>.
\<close>

theorem send_command_empty_payload_fails:
  "fst (send_command cmd data p) \<noteq> Some []
   \<and> (\<forall>p1 resp p2.
        asio_write (make_frame DEVICE_ADDR cmd data) p = (False, p1)
        \<and> read_response p1 = (Some resp, p2)
        \<and> validate_response resp cmd = Some []
        \<longrightarrow> send_command cmd data p = (None, p2))"
  by (simp add: send_command_def Let_def split: prod.splits option.splits)

theorem send_command_empty_payload_fails_witness:
  "asio_write (make_frame DEVICE_ADDR 0x01 [])
       \<lparr>write_calls = [], write_errors = [],
        read_events = [ReadBytes [0x57, 0xAB, 0x00, 0x01, 0x00, 0x03]]\<rparr>
     = (False, \<lparr>write_calls = [[0x57, 0xAB, 0x00, 0x01, 0x00, 0x03]], write_errors = [],
                read_events = [ReadBytes [0x57, 0xAB, 0x00, 0x01, 0x00, 0x03]]\<rparr>)
   \<and> read_response
       \<lparr>write_calls = [[0x57, 0xAB, 0x00, 0x01, 0x00, 0x03]], write_errors = [],
        read_events = [ReadBytes [0x57, 0xAB, 0x00, 0x01, 0x00, 0x03]]\<rparr>
     = (Some [0x57, 0xAB, 0x00, 0x01, 0x00, 0x03],
        \<lparr>write_calls = [[0x57, 0xAB, 0x00, 0x01, 0x00, 0x03]], write_errors = [],
         read_events = []\<rparr>)
   \<and> validate_response [0x57, 0xAB, 0x00, 0x01, 0x00, 0x03] 0x01 = Some []
   \<and> send_command 0x01 []
       \<lparr>write_calls = [], write_errors = [],
        read_events = [ReadBytes [0x57, 0xAB, 0x00, 0x01, 0x00, 0x03]]\<rparr>
     = (None, \<lparr>write_calls = [[0x57, 0xAB, 0x00, 0x01, 0x00, 0x03]], write_errors = [],
               read_events = []\<rparr>)"
  using send_command_empty_payload_fails
    [of "0x01" "[]" "\<lparr>write_calls = [], write_errors = [],
        read_events = [ReadBytes [0x57, 0xAB, 0x00, 0x01, 0x00, 0x03]]\<rparr>"]
  by (simp add: asio_write_def read_response_def read_some_def validate_response_unfolded
      make_frame_Cons DEVICE_ADDR_def)

section \<open>Properties of the command catalog\<close>

text \<open>
  C4.  When the device-info command returns a payload of at least 8 bytes, \<open>get_info\<close>
  returns a \<open>DeviceInfo\<close> with \<open>version_major = (byte0 >> 4) & (0x0F - 2)\<close> (the
  subtraction applied to the mask), \<open>version_minor\<close> the low nibble of byte 0,
  \<open>usb_connected\<close> iff byte 1 is \<open>0x01\<close>, num, caps and scroll lock the bits 0, 1
  and 2 of byte 2, and \<open>pc_sleeping\<close> iff byte 3 is \<open>0x03\<close>.  When the response
  passes \<open>validate_response\<close> with a payload of fewer than 8 bytes, the empty payload
  included, \<open>get_info\<close> fails; and it fails whenever \<open>send_command\<close> fails.
\<close>

theorem get_info_decodes:
  "(asio_write (make_frame DEVICE_ADDR 0x01 []) p = (False, p1)
      \<and> read_response p1 = (Some resp, p2)
      \<and> validate_response resp 0x01 = Some payload \<and> 8 \<le> length payload \<longrightarrow>
      get_info p =
        (Some \<lparr>version_major = drop_bit 4 (payload ! 0) AND (0x0F - 2),
               version_minor = payload ! 0 AND 0x0F,
               usb_connected = (payload ! 1 = 0x01),
               num_lock = bit (payload ! 2) 0,
               caps_lock = bit (payload ! 2) 1,
               scroll_lock = bit (payload ! 2) 2,
               pc_sleeping = (payload ! 3 = 0x03)\<rparr>, p2))
   \<and> (asio_write (make_frame DEVICE_ADDR 0x01 []) p = (False, p1)
      \<and> read_response p1 = (Some resp, p2)
      \<and> validate_response resp 0x01 = Some payload \<and> length payload < 8 \<longrightarrow>
      get_info p = (None, p2))
   \<and> (fst (send_command 0x01 [] p) = Some payload \<and> 8 \<le> length payload \<longrightarrow>
      fst (get_info p) =
        Some \<lparr>version_major = drop_bit 4 (payload ! 0) AND (0x0F - 2),
              version_minor = payload ! 0 AND 0x0F,
              usb_connected = (payload ! 1 = 0x01),
              num_lock = bit (payload ! 2) 0,
              caps_lock = bit (payload ! 2) 1,
              scroll_lock = bit (payload ! 2) 2,
              pc_sleeping = (payload ! 3 = 0x03)\<rparr>)
   \<and> (fst (send_command 0x01 [] p) = None \<longrightarrow> fst (get_info p) = None)"
proof -
  have b0: "(w AND 0x01 \<noteq> 0) = bit w 0" for w :: u8
    by (simp add: and_one_eq mod2_eq_if bit_0 flip: even_iff_mod_2_eq_zero)
  have b1: "(w AND 0x02 \<noteq> 0) = bit w 1" for w :: u8
    using and_exp_eq_0_iff_not_bit [of w 1] by simp
  have b2: "(w AND 0x04 \<noteq> 0) = bit w 2" for w :: u8
    using and_exp_eq_0_iff_not_bit [of w 2] by simp
  have long: "get_info p =
        (Some \<lparr>version_major = drop_bit 4 (payload ! 0) AND (0x0F - 2),
               version_minor = payload ! 0 AND 0x0F,
               usb_connected = (payload ! 1 = 0x01),
               num_lock = bit (payload ! 2) 0,
               caps_lock = bit (payload ! 2) 1,
               scroll_lock = bit (payload ! 2) 2,
               pc_sleeping = (payload ! 3 = 0x03)\<rparr>, p2)"
    if "asio_write (make_frame DEVICE_ADDR 0x01 []) p = (False, p1)"
      and "read_response p1 = (Some resp, p2)"
      and "validate_response resp 0x01 = Some payload" and "8 \<le> length payload"
  proof -
    have "payload \<noteq> []"
      using that(4) by auto
    then have "send_command 0x01 [] p = (Some payload, p2)"
      using that(1,2,3) by (simp add: send_command_def Let_def)
    then show ?thesis
      using that(4) by (simp add: get_info_def Let_def b0 b1 b2)
  qed
  have short: "get_info p = (None, p2)"
    if "asio_write (make_frame DEVICE_ADDR 0x01 []) p = (False, p1)"
      and "read_response p1 = (Some resp, p2)"
      and "validate_response resp 0x01 = Some payload" and "length payload < 8"
  proof (cases "payload = []")
    case True
    then have "send_command 0x01 [] p = (None, p2)"
      using that(1,2,3) by (simp add: send_command_def Let_def)
    then show ?thesis
      by (simp add: get_info_def)
  next
    case False
    then have "send_command 0x01 [] p = (Some payload, p2)"
      using that(1,2,3) by (simp add: send_command_def Let_def)
    then show ?thesis
      using that(4) by (simp add: get_info_def)
  qed
  have decoded: "fst (get_info p) =
        Some \<lparr>version_major = drop_bit 4 (payload ! 0) AND (0x0F - 2),
              version_minor = payload ! 0 AND 0x0F,
              usb_connected = (payload ! 1 = 0x01),
              num_lock = bit (payload ! 2) 0,
              caps_lock = bit (payload ! 2) 1,
              scroll_lock = bit (payload ! 2) 2,
              pc_sleeping = (payload ! 3 = 0x03)\<rparr>"
    if "fst (send_command 0x01 [] p) = Some payload" and "8 \<le> length payload"
    using that by (cases "send_command 0x01 [] p") (simp add: get_info_def Let_def b0 b1 b2)
  have failed: "fst (get_info p) = None" if "fst (send_command 0x01 [] p) = None"
    using that by (cases "send_command 0x01 [] p") (simp add: get_info_def)
  from long short decoded failed show ?thesis
    by blast
qed

text \<open>
  Three devices answer the device-info command.  The first sends 8 bytes with the
  version byte \<open>0x41\<close>: the major version decoded is 4 (\<open>4 & 13\<close>), not \<open>4 - 2\<close>.
  The second sends a valid frame with an empty payload, the third a valid frame with
  3 bytes: \<open>get_info\<close> fails on both.
\<close>

theorem get_info_decodes_witness:
  "asio_write (make_frame DEVICE_ADDR 0x01 [])
      \<lparr>write_calls = [], write_errors = [],
       read_events = [ReadBytes [0x57, 0xAB, 0x00, 0x81, 0x08,
                                 0x41, 0x01, 0x05, 0x03, 0x00, 0x00, 0x00, 0x00, 0xD5]]\<rparr>
     = (False,
        \<lparr>write_calls = [[0x57, 0xAB, 0x00, 0x01, 0x00, 0x03]], write_errors = [],
         read_events = [ReadBytes [0x57, 0xAB, 0x00, 0x81, 0x08,
                                   0x41, 0x01, 0x05, 0x03, 0x00, 0x00, 0x00, 0x00, 0xD5]]\<rparr>)
   \<and> read_response
        \<lparr>write_calls = [[0x57, 0xAB, 0x00, 0x01, 0x00, 0x03]], write_errors = [],
         read_events = [ReadBytes [0x57, 0xAB, 0x00, 0x81, 0x08,
                                   0x41, 0x01, 0x05, 0x03, 0x00, 0x00, 0x00, 0x00, 0xD5]]\<rparr>
     = (Some [0x57, 0xAB, 0x00, 0x81, 0x08, 0x41, 0x01, 0x05, 0x03, 0x00, 0x00, 0x00, 0x00, 0xD5],
        \<lparr>write_calls = [[0x57, 0xAB, 0x00, 0x01, 0x00, 0x03]], write_errors = [],
         read_events = []\<rparr>)
   \<and> validate_response
        [0x57, 0xAB, 0x00, 0x81, 0x08, 0x41, 0x01, 0x05, 0x03, 0x00, 0x00, 0x00, 0x00, 0xD5] 0x01
     = Some [0x41, 0x01, 0x05, 0x03, 0x00, 0x00, 0x00, 0x00]
   \<and> 8 \<le> length [0x41, 0x01, 0x05, 0x03, 0x00, 0x00, 0x00, 0x00 :: u8]
   \<and> fst (send_command 0x01 []
      \<lparr>write_calls = [], write_errors = [],
       read_events = [ReadBytes [0x57, 0xAB, 0x00, 0x81, 0x08,
                                 0x41, 0x01, 0x05, 0x03, 0x00, 0x00, 0x00, 0x00, 0xD5]]\<rparr>)
     = Some [0x41, 0x01, 0x05, 0x03, 0x00, 0x00, 0x00, 0x00]
   \<and> get_info
      \<lparr>write_calls = [], write_errors = [],
       read_events = [ReadBytes [0x57, 0xAB, 0x00, 0x81, 0x08,
                                 0x41, 0x01, 0x05, 0x03, 0x00, 0x00, 0x00, 0x00, 0xD5]]\<rparr>
     = (Some \<lparr>version_major = 0x04, version_minor = 0x01, usb_connected = True,
              num_lock = True, caps_lock = False, scroll_lock = True, pc_sleeping = True\<rparr>,
        \<lparr>write_calls = [[0x57, 0xAB, 0x00, 0x01, 0x00, 0x03]], write_errors = [],
         read_events = []\<rparr>)
   \<and> asio_write (make_frame DEVICE_ADDR 0x01 [])
      \<lparr>write_calls = [], write_errors = [],
       read_events = [ReadBytes [0x57, 0xAB, 0x00, 0x81, 0x00, 0x83]]\<rparr>
     = (False,
        \<lparr>write_calls = [[0x57, 0xAB, 0x00, 0x01, 0x00, 0x03]], write_errors = [],
         read_events = [ReadBytes [0x57, 0xAB, 0x00, 0x81, 0x00, 0x83]]\<rparr>)
   \<and> read_response
        \<lparr>write_calls = [[0x57, 0xAB, 0x00, 0x01, 0x00, 0x03]], write_errors = [],
         read_events = [ReadBytes [0x57, 0xAB, 0x00, 0x81, 0x00, 0x83]]\<rparr>
     = (Some [0x57, 0xAB, 0x00, 0x81, 0x00, 0x83],
        \<lparr>write_calls = [[0x57, 0xAB, 0x00, 0x01, 0x00, 0x03]], write_errors = [],
         read_events = []\<rparr>)
   \<and> validate_response [0x57, 0xAB, 0x00, 0x81, 0x00, 0x83] 0x01 = Some []
   \<and> length ([] :: u8 list) < 8
   \<and> fst (send_command 0x01 []
      \<lparr>write_calls = [], write_errors = [],
       read_events = [ReadBytes [0x57, 0xAB, 0x00, 0x81, 0x00, 0x83]]\<rparr>) = None
   \<and> get_info
      \<lparr>write_calls = [], write_errors = [],
       read_events = [ReadBytes [0x57, 0xAB, 0x00, 0x81, 0x00, 0x83]]\<rparr>
     = (None,
        \<lparr>write_calls = [[0x57, 0xAB, 0x00, 0x01, 0x00, 0x03]], write_errors = [],
         read_events = []\<rparr>)
   \<and> validate_response [0x57, 0xAB, 0x00, 0x81, 0x03, 0x41, 0x01, 0x05, 0xCD] 0x01
     = Some [0x41, 0x01, 0x05]
   \<and> length [0x41, 0x01, 0x05 :: u8] < 8
   \<and> get_info
      \<lparr>write_calls = [], write_errors = [],
       read_events = [ReadBytes [0x57, 0xAB, 0x00, 0x81, 0x03, 0x41, 0x01, 0x05, 0xCD]]\<rparr>
     = (None,
        \<lparr>write_calls = [[0x57, 0xAB, 0x00, 0x01, 0x00, 0x03]], write_errors = [],
         read_events = []\<rparr>)"
  using get_info_decodes
    [of "\<lparr>write_calls = [], write_errors = [],
       read_events = [ReadBytes [0x57, 0xAB, 0x00, 0x81, 0x08,
                                 0x41, 0x01, 0x05, 0x03, 0x00, 0x00, 0x00, 0x00, 0xD5]]\<rparr>"
        "\<lparr>write_calls = [[0x57, 0xAB, 0x00, 0x01, 0x00, 0x03]], write_errors = [],
         read_events = [ReadBytes [0x57, 0xAB, 0x00, 0x81, 0x08,
                                   0x41, 0x01, 0x05, 0x03, 0x00, 0x00, 0x00, 0x00, 0xD5]]\<rparr>"
        "[0x57, 0xAB, 0x00, 0x81, 0x08, 0x41, 0x01, 0x05, 0x03, 0x00, 0x00, 0x00, 0x00, 0xD5]"
        "\<lparr>write_calls = [[0x57, 0xAB, 0x00, 0x01, 0x00, 0x03]], write_errors = [],
         read_events = []\<rparr>"
        "[0x41, 0x01, 0x05, 0x03, 0x00, 0x00, 0x00, 0x00]"]
    get_info_decodes
    [of "\<lparr>write_calls = [], write_errors = [],
       read_events = [ReadBytes [0x57, 0xAB, 0x00, 0x81, 0x00, 0x83]]\<rparr>"
        "\<lparr>write_calls = [[0x57, 0xAB, 0x00, 0x01, 0x00, 0x03]], write_errors = [],
         read_events = [ReadBytes [0x57, 0xAB, 0x00, 0x81, 0x00, 0x83]]\<rparr>"
        "[0x57, 0xAB, 0x00, 0x81, 0x00, 0x83]"
        "\<lparr>write_calls = [[0x57, 0xAB, 0x00, 0x01, 0x00, 0x03]], write_errors = [],
         read_events = []\<rparr>"
        "[]"]
    get_info_decodes
    [of "\<lparr>write_calls = [], write_errors = [],
       read_events = [ReadBytes [0x57, 0xAB, 0x00, 0x81, 0x03, 0x41, 0x01, 0x05, 0xCD]]\<rparr>"
        "\<lparr>write_calls = [[0x57, 0xAB, 0x00, 0x01, 0x00, 0x03]], write_errors = [],
         read_events = [ReadBytes [0x57, 0xAB, 0x00, 0x81, 0x03, 0x41, 0x01, 0x05, 0xCD]]\<rparr>"
        "[0x57, 0xAB, 0x00, 0x81, 0x03, 0x41, 0x01, 0x05, 0xCD]"
        "\<lparr>write_calls = [[0x57, 0xAB, 0x00, 0x01, 0x00, 0x03]], write_errors = [],
         read_events = []\<rparr>"
        "[0x41, 0x01, 0x05]"]
  by (simp add: send_command_def asio_write_def read_response_def read_some_def
      validate_response_unfolded make_frame_Cons DEVICE_ADDR_def Let_def)

lemma key_array_data:
  "copy_at (Rep_key_array keys) 2 ((replicate 8 0)[0 := k, 1 := 0x00]) =
     [k, 0x00] @ Rep_key_array keys"
proof -
  have "length (Rep_key_array keys) = 6"
    using Rep_key_array [of keys] by simp
  then show ?thesis
    by (simp add: copy_at_def numeral_eq_Suc)
qed

text \<open>
  C7.  Each of the nine mutating commands returns \<open>true\<close> exactly when its
  \<open>send_command\<close> round trip returned a payload whose first byte is the success
  status \<open>0x00\<close> (such a payload is non-empty); a failed round trip and every other
  first byte, \<open>0xE1\<close> to \<open>0xE6\<close> included, give \<open>false\<close>.  The custom HID
  operation makes its round trip only for at most 64 bytes.
\<close>

theorem mutating_commands_success_iff:
  "fst (send_kb_general_data ctrl keys p) =
     (\<exists>rest. fst (send_command 0x02 ([pack_keyboard_ctrl_key ctrl, 0x00] @ Rep_key_array keys) p)
        = Some (0x00 # rest))
  \<and> fst (send_kb_media_data report_id keycode p) =
     (\<exists>rest. fst (send_command 0x03
         [report_id, ucast (keycode AND 0xFF), ucast (drop_bit 8 keycode AND 0xFF)] p)
        = Some (0x00 # rest))
  \<and> fst (send_ms_abs_data button x y wheel p) =
     (\<exists>rest. fst (send_command 0x04
         [0x02, pack_mouse_button button, ucast (x AND 0xFF), ucast (drop_bit 8 x AND 0xFF),
          ucast (y AND 0xFF), ucast (drop_bit 8 y AND 0xFF), ucast wheel] p)
        = Some (0x00 # rest))
  \<and> fst (send_ms_rel_data button x_delta y_delta wheel p) =
     (\<exists>rest. fst (send_command 0x05
         [0x01, pack_mouse_button button, ucast x_delta, ucast y_delta, ucast wheel] p)
        = Some (0x00 # rest))
  \<and> fst (send_hid_data data p) =
     (length data \<le> 64 \<and> (\<exists>rest. fst (send_command 0x06 data p) = Some (0x00 # rest)))
  \<and> fst (set_usb_string type str p) =
     (\<exists>rest. fst (send_command 0x0B
         ([usb_string_type_u8 type, of_nat (length str)] @ map of_char str) p)
        = Some (0x00 # rest))
  \<and> fst (set_para_config config p) =
     (\<exists>rest. fst (send_command 0x09 (Rep_para_array (raw_bytes config)) p) = Some (0x00 # rest))
  \<and> fst (set_default_config p) = (\<exists>rest. fst (send_command 0x0C [] p) = Some (0x00 # rest))
  \<and> fst (reset p) = (\<exists>rest. fst (send_command 0x0F [] p) = Some (0x00 # rest))"
proof -
  have kb: "fst (send_kb_general_data ctrl keys p) =
     (\<exists>rest. fst (send_command 0x02 ([pack_keyboard_ctrl_key ctrl, 0x00] @ Rep_key_array keys) p)
        = Some (0x00 # rest))"
    using key_array_data [of keys "pack_keyboard_ctrl_key ctrl"]
    by (simp add: send_kb_general_data_def Let_def status_check_iff Success_def split_beta)
  have media: "fst (send_kb_media_data report_id keycode p) =
     (\<exists>rest. fst (send_command 0x03
         [report_id, ucast (keycode AND 0xFF), ucast (drop_bit 8 keycode AND 0xFF)] p)
        = Some (0x00 # rest))"
    by (simp add: send_kb_media_data_def Let_def status_check_iff split_beta)
  have abs: "fst (send_ms_abs_data button x y wheel p) =
     (\<exists>rest. fst (send_command 0x04
         [0x02, pack_mouse_button button, ucast (x AND 0xFF), ucast (drop_bit 8 x AND 0xFF),
          ucast (y AND 0xFF), ucast (drop_bit 8 y AND 0xFF), ucast wheel] p)
        = Some (0x00 # rest))"
    by (simp add: send_ms_abs_data_def Let_def status_check_iff Success_def split_beta)
  have rel: "fst (send_ms_rel_data button x_delta y_delta wheel p) =
     (\<exists>rest. fst (send_command 0x05
         [0x01, pack_mouse_button button, ucast x_delta, ucast y_delta, ucast wheel] p)
        = Some (0x00 # rest))"
    by (simp add: send_ms_rel_data_def Let_def status_check_iff Success_def split_beta)
  have hid: "fst (send_hid_data data p) =
     (length data \<le> 64 \<and> (\<exists>rest. fst (send_command 0x06 data p) = Some (0x00 # rest)))"
    by (simp add: send_hid_data_def status_check_iff split_beta)
  have usb: "fst (set_usb_string type str p) =
     (\<exists>rest. fst (send_command 0x0B
         ([usb_string_type_u8 type, of_nat (length str)] @ map of_char str) p)
        = Some (0x00 # rest))"
    by (simp add: set_usb_string_def Let_def status_check_iff Success_def split_beta)
  have para: "fst (set_para_config config p) =
     (\<exists>rest. fst (send_command 0x09 (Rep_para_array (raw_bytes config)) p) = Some (0x00 # rest))"
    by (simp add: set_para_config_def status_check_iff split_beta)
  have dflt: "fst (set_default_config p) =
     (\<exists>rest. fst (send_command 0x0C [] p) = Some (0x00 # rest))"
    by (simp add: set_default_config_def status_check_iff split_beta)
  have rst: "fst (reset p) = (\<exists>rest. fst (send_command 0x0F [] p) = Some (0x00 # rest))"
    by (simp add: reset_def status_check_iff split_beta)
  from kb media abs rel hid usb para dflt rst show ?thesis
    by blast
qed

text \<open>
  Two devices answer the restore-defaults command \<open>0x0C\<close>, one with the status
  \<open>0x00\<close> and one with \<open>0xE1\<close>: the first call succeeds, the second fails.
\<close>

theorem mutating_commands_success_iff_witness:
  "fst (send_command 0x0C []
      \<lparr>write_calls = [], write_errors = [],
       read_events = [ReadBytes [0x57, 0xAB, 0x00, 0x8C, 0x01, 0x00, 0x8F]]\<rparr>) = Some [0x00]
   \<and> fst (set_default_config
      \<lparr>write_calls = [], write_errors = [],
       read_events = [ReadBytes [0x57, 0xAB, 0x00, 0x8C, 0x01, 0x00, 0x8F]]\<rparr>) = True
   \<and> fst (send_command 0x0C []
      \<lparr>write_calls = [], write_errors = [],
       read_events = [ReadBytes [0x57, 0xAB, 0x00, 0x8C, 0x01, 0xE1, 0x70]]\<rparr>) = Some [0xE1]
   \<and> fst (set_default_config
      \<lparr>write_calls = [], write_errors = [],
       read_events = [ReadBytes [0x57, 0xAB, 0x00, 0x8C, 0x01, 0xE1, 0x70]]\<rparr>) = False"
  using mutating_commands_success_iff
    [where p = "\<lparr>write_calls = [], write_errors = [],
       read_events = [ReadBytes [0x57, 0xAB, 0x00, 0x8C, 0x01, 0x00, 0x8F]]\<rparr>"]
    mutating_commands_success_iff
    [where p = "\<lparr>write_calls = [], write_errors = [],
       read_events = [ReadBytes [0x57, 0xAB, 0x00, 0x8C, 0x01, 0xE1, 0x70]]\<rparr>"]
  by (simp add: send_command_def asio_write_def read_response_def read_some_def
      validate_response_unfolded Let_def)

text \<open>
  C9.  For data of more than 64 bytes \<open>send_hid_data\<close> returns \<open>false\<close> and leaves
  the port as it was: nothing is written and nothing is read.  For data of at most 64
  bytes it hands to the transport the frame of command \<open>0x06\<close> whose payload is the
  data, byte for byte.
\<close>

theorem send_hid_data_length_guard:
  "(64 < length data \<longrightarrow> send_hid_data data p = (False, p))
   \<and> (length data \<le> 64 \<longrightarrow>
        write_calls (snd (send_hid_data data p)) =
          write_calls p @ [make_frame DEVICE_ADDR 0x06 data]
        \<and> butlast (drop 5 (make_frame DEVICE_ADDR 0x06 data)) = data)"
  by (simp add: send_hid_data_def split_beta send_command_writes make_frame_Cons)

theorem send_hid_data_length_guard_witness:
  "64 < length (replicate 65 (0x00 :: u8))
   \<and> send_hid_data (replicate 65 0x00) \<lparr>write_calls = [], write_errors = [], read_events = []\<rparr>
       = (False, \<lparr>write_calls = [], write_errors = [], read_events = []\<rparr>)
   \<and> length [0xDE, 0xAD :: u8] \<le> 64
   \<and> write_calls (snd (send_hid_data [0xDE, 0xAD]
         \<lparr>write_calls = [], write_errors = [], read_events = []\<rparr>))
       = [[0x57, 0xAB, 0x00, 0x06, 0x02, 0xDE, 0xAD, 0x95]]"
  using send_hid_data_length_guard
      [of "replicate 65 0x00" "\<lparr>write_calls = [], write_errors = [], read_events = []\<rparr>"]
    send_hid_data_length_guard
      [of "[0xDE, 0xAD]" "\<lparr>write_calls = [], write_errors = [], read_events = []\<rparr>"]
  by (simp add: make_frame_Cons DEVICE_ADDR_def)

text \<open>
  C5 fails on \<open>send_ms_abs_data\<close>, the operation that takes the button and the wheel:
  it sends \<open>x\<close> and \<open>y\<close> as they are.  For \<open>x = 5000\<close> the payload carries
  \<open>0x88, 0x13\<close> (5000, low byte first) and not \<open>0xFF, 0x0F\<close> (4095).
  \<open>move_to_absolute\<close>, which sends the same report without button and wheel, does
  clamp the same coordinate to 4095.
\<close>

theorem send_ms_abs_data_unclamped:
  "write_calls (snd (send_ms_abs_data MouseButton_None 5000 0 0
      \<lparr>write_calls = [], write_errors = [], read_events = []\<rparr>))
     = [[0x57, 0xAB, 0x00, 0x04, 0x07, 0x02, 0x00, 0x88, 0x13, 0x00, 0x00, 0x00, 0xAA]]
   \<and> write_calls (snd (move_to_absolute 5000 0
      \<lparr>write_calls = [], write_errors = [], read_events = []\<rparr>))
     = [[0x57, 0xAB, 0x00, 0x04, 0x07, 0x02, 0x00, 0xFF, 0x0F, 0x00, 0x00, 0x00, 0x1D]]"
  by (simp add: send_command_writes send_ms_abs_data_def move_to_absolute_def Let_def split_beta
      make_frame_Cons DEVICE_ADDR_def MouseButton_None_def)

text \<open>
  What the two operations send, for all arguments: the 7-byte report with the
  coordinates low byte first, clamped by \<open>move_to_absolute\<close> only.
\<close>

lemma send_ms_abs_data_frame:
  "write_calls (snd (send_ms_abs_data button x y wheel p)) =
     write_calls p @
       [make_frame DEVICE_ADDR 0x04
          [0x02, pack_mouse_button button, ucast (x AND 0xFF), ucast (drop_bit 8 x AND 0xFF),
           ucast (y AND 0xFF), ucast (drop_bit 8 y AND 0xFF), wheel]]"
  by (simp add: send_ms_abs_data_def Let_def split_beta send_command_writes)

lemma move_to_absolute_frame:
  "write_calls (snd (move_to_absolute x y p)) =
     write_calls p @
       [make_frame DEVICE_ADDR 0x04
          [0x02, 0x00, ucast (min x 4095 AND 0xFF), ucast (drop_bit 8 (min x 4095) AND 0xFF),
           ucast (min y 4095 AND 0xFF), ucast (drop_bit 8 (min y 4095) AND 0xFF), 0x00]]"
  by (simp add: move_to_absolute_def Let_def split_beta send_command_writes)

section \<open>Properties of the mouse helpers\<close>

text \<open>
  C10.  \<open>mouse_up\<close> does the same for every button argument: the results for two
  buttons are equal, and the frame written is the relative-mouse report
  \<open>0x01, 0x00, 0x00, 0x00, 0x00\<close>, which releases all buttons.
\<close>

theorem mouse_up_ignores_button:
  "mouse_up b1 p = mouse_up b2 p
   \<and> write_calls (snd (mouse_up b1 p)) =
       write_calls p @ [make_frame DEVICE_ADDR 0x05 [0x01, 0x00, 0x00, 0x00, 0x00]]"
  by (simp add: mouse_up_def Let_def split_beta send_command_writes)

section \<open>Properties of the coordinate mapper\<close>

text \<open>
  C6 fails on its third part.  The quotient is narrowed to 16 bits before it is compared
  with 4095, so a quotient of 65536 or more wraps around instead of being clamped: on a
  screen 1920 wide, \<open>x = 30000\<close> maps to 4095 and the larger \<open>x = 30730\<close> maps
  to 5.
\<close>

theorem convert_screen_to_absolute_not_monotone:
  "convert_screen_to_absolute 30000 0 1920 1080 = Some (4095, 0)
   \<and> convert_screen_to_absolute 30730 0 1920 1080 = Some (5, 0)"
  by (simp add: convert_screen_to_absolute_def)

text \<open>
  The other parts of C6 hold, and so does monotonicity as long as the quotient fits
  into 16 bits, which a coordinate of at most 16 times the width or height ensures.
\<close>

lemma unat_scaled:
  fixes c extent :: u16
  shows "unat (ucast (((ucast c :: u32) * 4095) div ucast extent) :: u16) =
     (unat c * 4095 div unat extent) mod 65536"
proof -
  have "unat c < 2 ^ LENGTH(16)"
    by (rule unsigned_less)
  then have c: "unat c < 65536"
    by simp
  have uc: "unat (ucast c :: u32) = unat c"
    using c by (simp add: unsigned_ucast_eq take_bit_eq_mod)
  have "unat extent < 2 ^ LENGTH(16)"
    by (rule unsigned_less)
  then have e: "unat extent < 65536"
    by simp
  have ue: "unat (ucast extent :: u32) = unat extent"
    using e by (simp add: unsigned_ucast_eq take_bit_eq_mod)
  have "unat ((ucast c :: u32) * 4095) = unat c * 4095"
    using c by (simp add: unat_word_ariths uc)
  then have "unat (((ucast c :: u32) * 4095) div ucast extent) = unat c * 4095 div unat extent"
    by (simp add: unat_div ue)
  then show ?thesis
    by (simp add: unsigned_ucast_eq take_bit_eq_mod)
qed

lemma unat_min_u16: "unat (min a b :: u16) = min (unat a) (unat b)"
  by (simp add: min_def word_le_nat_alt)

lemma scaled_mono:
  fixes c c' extent :: u16
  assumes "c \<le> c'" and "unat c' \<le> 16 * unat extent"
  shows "min (ucast (((ucast c :: u32) * 4095) div ucast extent) :: u16) 4095
       \<le> min (ucast (((ucast c' :: u32) * 4095) div ucast extent)) 4095"
proof -
  have le: "unat c \<le> unat c'"
    using assms(1) by (simp add: word_le_nat_alt)
  have "unat c' * 4095 \<le> (16 * 4095) * unat extent"
    using assms(2) by simp
  then have q': "unat c' * 4095 div unat extent \<le> 16 * 4095"
    by (metis div_le_mono div_by_0 div_mult_self_is_m le0 not_gr_zero)
  have "unat c * 4095 div unat extent \<le> unat c' * 4095 div unat extent"
    using le by (simp add: div_le_mono)
  then show ?thesis
    using q' by (simp add: word_le_nat_alt unat_min_u16 unat_scaled)
qed

lemma convert_screen_to_absolute_origin:
  "w \<noteq> 0 \<Longrightarrow> h \<noteq> 0 \<Longrightarrow> convert_screen_to_absolute 0 0 w h = Some (0, 0)"
  by (simp add: convert_screen_to_absolute_def)

lemma convert_screen_to_absolute_bound:
  "convert_screen_to_absolute x y w h = Some (ax, ay) \<Longrightarrow> ax \<le> 4095 \<and> ay \<le> 4095"
  by (auto simp add: convert_screen_to_absolute_def Let_def split: if_splits)

lemma convert_screen_to_absolute_mono_in_range:
  assumes "w \<noteq> 0" and "h \<noteq> 0"
    and "x \<le> x'" and "unat x' \<le> 16 * unat w"
    and "y \<le> y'" and "unat y' \<le> 16 * unat h"
  shows "\<exists>ax ay ax' ay'.
           convert_screen_to_absolute x y w h = Some (ax, ay)
           \<and> convert_screen_to_absolute x' y' w h = Some (ax', ay')
           \<and> ax \<le> ax' \<and> ay \<le> ay'"
  using assms scaled_mono [of x x' w] scaled_mono [of y y' h]
  by (simp add: convert_screen_to_absolute_def Let_def)

end
